theory Spec2Isabelle
  imports Complex_Main
begin

section \<open>Python values\<close>

text \<open>
  A cell of the prospects table as \<^verbatim>\<open>pandas.read_csv\<close> delivers it, and the value of a key
  of a result dictionary: \<open>PNone\<close> is Python's \<^verbatim>\<open>None\<close> (what \<^verbatim>\<open>Series.get\<close> returns for a
  column the table does not have), \<open>PNaN\<close> is the float \<^verbatim>\<open>nan\<close> pandas puts in an empty cell,
  \<open>PStr\<close> a string and \<open>PInt\<close> an integer. Characters of a string stand for code points
  below 256.
\<close>

datatype pyval = PNone | PNaN | PStr string | PInt int

text \<open>Python truthiness (\<^verbatim>\<open>bool(v)\<close>, \<^verbatim>\<open>if v:\<close>, \<^verbatim>\<open>not v\<close>): \<^verbatim>\<open>nan\<close> is a non-zero float, so it is true.\<close>

fun truthy :: "pyval \<Rightarrow> bool" where
  "truthy PNone = False"
| "truthy PNaN = True"
| "truthy (PStr s) = (s \<noteq> [])"
| "truthy (PInt n) = (n \<noteq> 0)"

text \<open>Truthiness of an \<^verbatim>\<open>Optional[str]\<close>: \<^verbatim>\<open>None\<close> and the empty string are false.\<close>

fun truthy_str :: "string option \<Rightarrow> bool" where
  "truthy_str None = False"
| "truthy_str (Some s) = (s \<noteq> [])"

text \<open>
  A Python \<^verbatim>\<open>float\<close>: a finite binary64 number, given by the real number it denotes, or one
  of the three special values. \<open>float_gt a b\<close> is \<^verbatim>\<open>a > b\<close>: exact on finite values, false
  whenever \<^verbatim>\<open>nan\<close> takes part.
\<close>

datatype pyfloat = Finite real | FNaN | FPosInf | FNegInf

fun float_gt :: "pyfloat \<Rightarrow> pyfloat \<Rightarrow> bool" where
  "float_gt (Finite a) (Finite b) = (a > b)"
| "float_gt FNaN _ = False"
| "float_gt _ FNaN = False"
| "float_gt FPosInf FPosInf = False"
| "float_gt FPosInf _ = True"
| "float_gt _ FPosInf = False"
| "float_gt FNegInf _ = False"
| "float_gt _ FNegInf = True"

text \<open>
  An exception of class \<^verbatim>\<open>Exception\<close> is a value: a call either raises (with its message) or
  returns. \<^verbatim>\<open>KeyboardInterrupt\<close> and the other \<^verbatim>\<open>BaseException\<close>s, which no handler of the
  program catches, are outside the model.
\<close>

datatype 'a attempt = Raises string | Returns 'a

text \<open>
  \<^verbatim>\<open>str.strip()\<close>: leading and trailing whitespace removed, whitespace being the code points
  for which \<^verbatim>\<open>str.isspace\<close> holds (below 256: 9 to 13, 28 to 32, 133 and 160).
\<close>

definition isspace :: "char \<Rightarrow> bool" where
  "isspace c = ((of_char c :: nat) \<in> {9, 10, 11, 12, 13, 28, 29, 30, 31, 32, 133, 160})"

definition strip :: "string \<Rightarrow> string" where
  "strip s = rev (dropWhile isspace (rev (dropWhile isspace s)))"

section \<open>gemini\_classifier.py\<close>

text \<open>
  The dictionary \<^verbatim>\<open>classify_relevance_and_contact\<close> returns (the attributes of \<^verbatim>\<open>RelevanceAndContact\<close>).
\<close>

record relevance =
  is_relevant :: bool
  confidence :: pyfloat
  reasoning :: string
  phone_number :: "string option"
  street_address :: "string option"

text \<open>
  The dictionary \<^verbatim>\<open>analyze_team_members\<close> returns (the attributes of \<^verbatim>\<open>TeamMemberCount\<close>); its key
  \<^verbatim>\<open>confidence\<close> is the field \<open>count_confidence\<close> here, the name \<open>confidence\<close> being taken.
\<close>

record team_analysis =
  employee_count :: int
  count_confidence :: pyfloat
  names_found :: "string list"

text \<open>
  A page as \<^verbatim>\<open>scrape_single_page\<close> returns it: its keys \<^verbatim>\<open>url\<close> and \<^verbatim>\<open>text\<close> (the field
  \<open>page_text\<close>); the parsed \<^verbatim>\<open>soup\<close> and the title are left out.
\<close>

record page =
  url :: string
  page_text :: string

text \<open>
  The dictionary \<^verbatim>\<open>scrape_company_pages\<close> returns. Its keys \<^verbatim>\<open>employee_count\<close> and
  \<^verbatim>\<open>business_description\<close>, which \<^verbatim>\<open>process_companies_fast\<close> never reads, are left out.
\<close>

record scraping_results =
  homepage :: "page option"
  about_page :: "page option"
  team_page :: "page option"
  contact_page :: "page option"
  error :: "string option"

text \<open>
  What lies outside the program, as functions of what the program hands over:
  \<^item> \<open>scrape_single_page\<close>: the HTTP fetch and clean-up of one page. The source function
    wraps its whole body in \<^verbatim>\<open>try ... except Exception: return None\<close>, so it returns a page
    or \<^verbatim>\<open>None\<close> and never raises;
  \<^item> \<open>find_about_page\<close>, \<open>find_team_page\<close>, \<open>find_contact_page\<close>: the link search in the
    homepage's soup, given the homepage and the base URL; they have no handler of their
    own and may raise;
  \<^item> \<open>classify_relevance_and_contact\<close>: the first language-model call, given the company
    name and the homepage, about and contact texts;
  \<^item> \<open>team_llm\<close>: the language-model chain of \<^verbatim>\<open>analyze_team_members\<close> (building the model,
    the parser and the prompt, and \<^verbatim>\<open>chain.invoke\<close>), given the combined content.
  Every theorem below holds for all such functions.
\<close>

record collaborators =
  scrape_single_page :: "pyval \<Rightarrow> page option"
  find_about_page :: "page \<Rightarrow> pyval \<Rightarrow> string option attempt"
  find_team_page :: "page \<Rightarrow> pyval \<Rightarrow> string option attempt"
  find_contact_page :: "page \<Rightarrow> pyval \<Rightarrow> string option attempt"
  classify_relevance_and_contact :: "pyval \<Rightarrow> string \<Rightarrow> string \<Rightarrow> string \<Rightarrow> relevance attempt"
  team_llm :: "string \<Rightarrow> team_analysis attempt"

text \<open>
  The calls the program makes to its collaborators, in order, each with what came back.
  \<open>Team_LLM\<close> carries the content sent to the language model by \<^verbatim>\<open>analyze_team_members\<close>.
\<close>

datatype call =
    Scrape pyval scraping_results
  | Classify "relevance attempt"
  | Analyze "team_analysis attempt"
  | Team_LLM string

text \<open>
  \<^verbatim>\<open>analyze_team_members(company_data)\<close>. The two arguments are \<^verbatim>\<open>company_data.get('team_text')\<close>
  and \<^verbatim>\<open>company_data.get('about_text')\<close> (\<open>None\<close> for a missing key or \<^verbatim>\<open>None\<close>). The result is
  the returned dictionary, or the exception of the language-model chain, together with the
  language-model calls made.
\<close>

definition analyze_team_members ::
  "collaborators \<Rightarrow> string option \<Rightarrow> string option \<Rightarrow> team_analysis attempt \<times> call list" where
  "analyze_team_members env team_text about_text =
     (let team_content = [];
          team_content = (if truthy_str team_text
                          then team_content @ ''=== TEAM PAGE ==='' @ [CHR 0x0A, CHR 0x0A] @ the team_text
                          else team_content);
          team_content = (if truthy_str about_text
                          then team_content @ [CHR 0x0A, CHR 0x0A] @ ''=== ABOUT PAGE ==='' @ [CHR 0x0A, CHR 0x0A]
                               @ the about_text
                          else team_content)
      in if strip team_content = []
         then (Returns \<lparr>employee_count = 0, count_confidence = Finite 0, names_found = []\<rparr>, [])
         else (team_llm env team_content, [Team_LLM team_content]))"

section \<open>website\_scraper.py\<close>

text \<open>
  \<^verbatim>\<open>scrape_company_pages(website_url)\<close>. The body is one \<^verbatim>\<open>try\<close> block whose handler
  (\<^verbatim>\<open>except Exception as e\<close>) stores \<^verbatim>\<open>"Scraping error: " + str(e)\<close> under \<^verbatim>\<open>error\<close> in the
  dictionary as filled so far and returns it. The three link searches are the calls in the
  block that can raise. \<^verbatim>\<open>extract_business_description\<close>, whose result is never read by the
  pipeline, is not modelled.
\<close>

definition scrape_company_pages :: "collaborators \<Rightarrow> pyval \<Rightarrow> scraping_results attempt" where
  "scrape_company_pages env website_url =
     (let results = \<lparr>homepage = None, about_page = None, team_page = None,
                      contact_page = None, error = None\<rparr>
      in case scrape_single_page env website_url of
           None \<Rightarrow> Returns (results\<lparr>error := Some ''Could not access homepage''\<rparr>)
         | Some homepage_data \<Rightarrow>
             (let results = results\<lparr>homepage := Some homepage_data\<rparr>
              in case find_about_page env homepage_data website_url of
                   Raises e \<Rightarrow> Returns (results\<lparr>error := Some (''Scraping error: '' @ e)\<rparr>)
                 | Returns about_url \<Rightarrow>
                     (let results =
                            (if truthy_str about_url
                             then (case scrape_single_page env (PStr (the about_url)) of
                                     None \<Rightarrow> results
                                   | Some about_data \<Rightarrow> results\<lparr>about_page := Some about_data\<rparr>)
                             else results)
                      in case find_team_page env homepage_data website_url of
                           Raises e \<Rightarrow> Returns (results\<lparr>error := Some (''Scraping error: '' @ e)\<rparr>)
                         | Returns team_url \<Rightarrow>
                             (let results =
                                    (if truthy_str team_url
                                     then (case scrape_single_page env (PStr (the team_url)) of
                                             None \<Rightarrow> results
                                           | Some team_data \<Rightarrow> results\<lparr>team_page := Some team_data\<rparr>)
                                     else results)
                              in case find_contact_page env homepage_data website_url of
                                   Raises e \<Rightarrow>
                                     Returns (results\<lparr>error := Some (''Scraping error: '' @ e)\<rparr>)
                                 | Returns contact_url \<Rightarrow>
                                     Returns
                                       (if truthy_str contact_url
                                        then (case scrape_single_page env (PStr (the contact_url)) of
                                                None \<Rightarrow> results
                                              | Some contact_data \<Rightarrow>
                                                  results\<lparr>contact_page := Some contact_data\<rparr>)
                                        else results)))))"

section \<open>fast\_processor.py\<close>

text \<open>The seventeen keys of a result dictionary, which are also the columns read from a row.\<close>

datatype column =
    Record_ID | Company_name | Type | Sector | Company_Domain_Name | Number_of_Employees
  | City | Country | Company_owner | Create_Date | Website_URL | Phone_Number
  | Last_Activity_Date | Country_Region | Industry | Lifecycle_Stage | Street_Address

text \<open>
  A row of the table (a pandas \<^verbatim>\<open>Series\<close>): the cell of each column the table has.
  \<open>series_get company k d\<close> is \<^verbatim>\<open>company.get(k, d)\<close>, and \<^verbatim>\<open>company.get(k)\<close> is
  \<open>series_get company k PNone\<close>. A result dictionary is a map from its keys;
  \<open>dict_get r k d\<close> is \<^verbatim>\<open>r.get(k, d)\<close> and \<^verbatim>\<open>r.update(d)\<close> is \<open>r ++ d\<close>.
\<close>

type_synonym company = "column \<Rightarrow> pyval option"

type_synonym result = "column \<Rightarrow> pyval option"

definition series_get :: "company \<Rightarrow> column \<Rightarrow> pyval \<Rightarrow> pyval" where
  "series_get company k d = (case company k of None \<Rightarrow> d | Some v \<Rightarrow> v)"

definition dict_get :: "result \<Rightarrow> column \<Rightarrow> pyval \<Rightarrow> pyval" where
  "dict_get r k d = (case r k of None \<Rightarrow> d | Some v \<Rightarrow> v)"

text \<open>The base result with all original data (lines 48 to 66).\<close>

definition base_result :: "company \<Rightarrow> pyval \<Rightarrow> pyval \<Rightarrow> result" where
  "base_result company company_name website_url =
     [Record_ID \<mapsto> series_get company Record_ID PNone,
      Company_name \<mapsto> company_name,
      Type \<mapsto> series_get company Type PNone,
      Sector \<mapsto> series_get company Sector PNone,
      Company_Domain_Name \<mapsto> series_get company Company_Domain_Name PNone,
      Number_of_Employees \<mapsto> series_get company Number_of_Employees (PInt 11),
      City \<mapsto> series_get company City PNone,
      Country \<mapsto> series_get company Country PNone,
      Company_owner \<mapsto> series_get company Company_owner PNone,
      Create_Date \<mapsto> series_get company Create_Date PNone,
      Website_URL \<mapsto> website_url,
      Phone_Number \<mapsto> series_get company Phone_Number PNone,
      Last_Activity_Date \<mapsto> series_get company Last_Activity_Date PNone,
      Country_Region \<mapsto> series_get company Country_Region PNone,
      Industry \<mapsto> series_get company Industry PNone,
      Lifecycle_Stage \<mapsto> series_get company Lifecycle_Stage PNone,
      Street_Address \<mapsto> series_get company Street_Address PNone]"

text \<open>The four keys every disqualification overwrites (lines 70 to 75, 85 to 90, 118 to 123).\<close>

definition dq_update :: result where
  "dq_update =
     [Lifecycle_Stage \<mapsto> PStr ''other'',
      Company_owner \<mapsto> PStr ''no owner'',
      Sector \<mapsto> PStr ''n/a'',
      Type \<mapsto> PStr ''other'']"

text \<open>
  The contact update from the first language-model call, written out four times in the
  source (lines 143 to 149, 190 to 196, 218 to 224, 235 to 241).
\<close>

definition update_contact_info :: "result \<Rightarrow> relevance \<Rightarrow> result" where
  "update_contact_info result relevance_analysis =
     (let result = (if truthy_str (phone_number relevance_analysis)
                    then result(Phone_Number \<mapsto> PStr (the (phone_number relevance_analysis)))
                    else result)
      in if truthy_str (street_address relevance_analysis)
         then result(Street_Address \<mapsto> PStr (the (street_address relevance_analysis)))
         else result)"

text \<open>
  The branch one company leaves the loop body by, named as the specification names the
  reasons. The source prints a message in each branch: \<open>NoWebsite\<close> is "DQ: No website URL",
  \<open>ScrapeFailed\<close> "DQ: Scraping failed", \<open>Irrelevant\<close> "DQ: Irrelevant company",
  \<open>ClassifierError\<close> "Kept for manual review due to AI error", \<open>NoTeamData\<close>
  "MANUAL REVIEW: No team/about pages found", \<open>TeamTooSmall\<close> "DQ: Team too small",
  \<open>TeamParseFailed\<close> "MANUAL REVIEW: Team parsing failed", \<open>ApprovedOk\<close> "APPROVED" and
  \<open>AnalyzerError\<close> "MANUAL REVIEW: Team analysis failed".
\<close>

datatype reason =
    NoWebsite | ScrapeFailed | Irrelevant | ClassifierError | NoTeamData
  | TeamTooSmall | TeamParseFailed | ApprovedOk | AnalyzerError

datatype disposition = Disqualified | ManualReview | Approved

fun disposition_of :: "reason \<Rightarrow> disposition" where
  "disposition_of NoWebsite = Disqualified"
| "disposition_of ScrapeFailed = Disqualified"
| "disposition_of Irrelevant = Disqualified"
| "disposition_of TeamTooSmall = Disqualified"
| "disposition_of ClassifierError = ManualReview"
| "disposition_of NoTeamData = ManualReview"
| "disposition_of TeamParseFailed = ManualReview"
| "disposition_of AnalyzerError = ManualReview"
| "disposition_of ApprovedOk = Approved"

text \<open>
  What one pass through the loop body does: the dictionaries it appends to \<^verbatim>\<open>results\<close>, the
  branch taken, the collaborator calls made, and whether the pass ended with \<^verbatim>\<open>continue\<close>
  (which skips the rest of the body) rather than by reaching the end of the body.
\<close>

record iteration =
  appended :: "result list"
  reason :: reason
  calls :: "call list"
  continued :: bool

text \<open>The literal \<^verbatim>\<open>0.8\<close> of line 117 is the binary64 number nearest to eight tenths.\<close>

definition confidence_threshold :: real where
  "confidence_threshold = 3602879701896397 / 4503599627370496"

text \<open>The owner tiers of an approval (lines 204 to 209).\<close>

definition owner_tier :: "int \<Rightarrow> string" where
  "owner_tier team_count =
     (if team_count \<ge> 100 then ''Matt''
      else if team_count \<ge> 16 then ''Ellinor''
      else ''James'')"

text \<open>
  The team size rules (lines 172 to 227), inside the \<^verbatim>\<open>try\<close> block of the second call: the
  dictionary appended and the branch. No branch ends with \<^verbatim>\<open>continue\<close>. In the branch for a
  count of zero the variable \<^verbatim>\<open>owner\<close> is only printed.
\<close>

definition team_size_rules :: "result \<Rightarrow> relevance \<Rightarrow> int \<Rightarrow> result \<times> reason" where
  "team_size_rules result relevance_analysis team_count =
     (if 1 \<le> team_count \<and> team_count < 5 then
        (result ++ [Lifecycle_Stage \<mapsto> PStr ''other'',
                    Company_owner \<mapsto> PStr ''no owner'',
                    Sector \<mapsto> PStr ''n/a'',
                    Type \<mapsto> PStr ''other'',
                    Number_of_Employees \<mapsto> PInt team_count],
         TeamTooSmall)
      else if team_count = 0 then
        (let owner = dict_get result Company_owner (PStr ''James'')
         in (update_contact_info result relevance_analysis, TeamParseFailed))
      else
        (let owner = owner_tier team_count;
             result = result ++ [Company_owner \<mapsto> PStr owner,
                                 Number_of_Employees \<mapsto> PInt team_count]
         in (update_contact_info result relevance_analysis, ApprovedOk)))"

text \<open>\<^verbatim>\<open>scraping_results[p]['text'] if scraping_results.get(p) else ''\<close> for a page key \<^verbatim>\<open>p\<close>.\<close>

definition text_of :: "page option \<Rightarrow> string" where
  "text_of p = (case p of None \<Rightarrow> [] | Some d \<Rightarrow> page_text d)"

text \<open>
  Lines 135 to 244: the team-data check and the second call, with its handler. \<open>so_far\<close> is
  the calls made so far. In both manual-review branches the variable \<^verbatim>\<open>owner\<close> is only printed.
\<close>

definition team_stage ::
  "collaborators \<Rightarrow> result \<Rightarrow> scraping_results \<Rightarrow> relevance \<Rightarrow> call list \<Rightarrow> iteration" where
  "team_stage env result scraping_results relevance_analysis so_far =
     (let has_team_data = (team_page scraping_results \<noteq> None \<or> about_page scraping_results \<noteq> None)
      in if \<not> has_team_data then
           (let owner = dict_get result Company_owner (PStr ''James'')
            in \<lparr>appended = [update_contact_info result relevance_analysis],
                reason = NoTeamData, calls = so_far, continued = True\<rparr>)
         else
           (case analyze_team_members env
                   (Some (text_of (team_page scraping_results)))
                   (Some (text_of (about_page scraping_results))) of
              (Raises e, llm_calls) \<Rightarrow>
                (let owner = dict_get result Company_owner (PStr ''James'')
                 in \<lparr>appended = [update_contact_info result relevance_analysis],
                     reason = AnalyzerError,
                     calls = so_far @ [Analyze (Raises e)] @ llm_calls, continued = False\<rparr>)
            | (Returns team_analysis, llm_calls) \<Rightarrow>
                (case team_size_rules result relevance_analysis (employee_count team_analysis) of
                   (result, why) \<Rightarrow>
                     \<lparr>appended = [result], reason = why,
                      calls = so_far @ [Analyze (Returns team_analysis)] @ llm_calls,
                      continued = False\<rparr>)))"

text \<open>Lines 103 to 133: the first call, its handler and the relevance rule.\<close>

definition relevance_stage ::
  "collaborators \<Rightarrow> pyval \<Rightarrow> result \<Rightarrow> scraping_results \<Rightarrow> call list \<Rightarrow> iteration" where
  "relevance_stage env company_name result scraping_results so_far =
     (case classify_relevance_and_contact env company_name
             (text_of (homepage scraping_results))
             (text_of (about_page scraping_results))
             (text_of (contact_page scraping_results)) of
        Raises e \<Rightarrow>
          \<lparr>appended = [result], reason = ClassifierError,
           calls = so_far @ [Classify (Raises e)], continued = True\<rparr>
      | Returns relevance_analysis \<Rightarrow>
          if \<not> is_relevant relevance_analysis
             \<and> float_gt (confidence relevance_analysis) (Finite confidence_threshold)
          then \<lparr>appended = [result ++ dq_update], reason = Irrelevant,
                calls = so_far @ [Classify (Returns relevance_analysis)], continued = True\<rparr>
          else team_stage env result scraping_results relevance_analysis
                 (so_far @ [Classify (Returns relevance_analysis)]))"

text \<open>
  The loop body up to line 244, for one row. The call of \<^verbatim>\<open>scrape_company_pages\<close> (line 82)
  stands outside every \<^verbatim>\<open>try\<close> block: an exception of it would leave the function.
\<close>

definition process_company :: "collaborators \<Rightarrow> company \<Rightarrow> iteration attempt" where
  "process_company env company =
     (let company_name = series_get company Company_name (PStr ''Unknown'');
          website_url = series_get company Website_URL (PStr []);
          result = base_result company company_name website_url
      in if \<not> truthy website_url then
           Returns \<lparr>appended = [result ++ dq_update], reason = NoWebsite,
                    calls = [], continued = True\<rparr>
         else
           (case scrape_company_pages env website_url of
              Raises e \<Rightarrow> Raises e
            | Returns scraping_results \<Rightarrow>
                if truthy_str (error scraping_results) then
                  Returns \<lparr>appended = [result ++ dq_update], reason = ScrapeFailed,
                           calls = [Scrape website_url scraping_results], continued = True\<rparr>
                else
                  Returns (relevance_stage env company_name result scraping_results
                             [Scrape website_url scraping_results])))"

text \<open>
  The state of a run: the list \<^verbatim>\<open>results\<close>, the checkpoint files written (the count in the
  file name and the rows of the file) and the collaborator calls made.
\<close>

record run =
  results :: "result list"
  checkpoints :: "(nat \<times> result list) list"
  trace :: "call list"

text \<open>
  One pass through the loop body (lines 40 to 253): \<^verbatim>\<open>processed_count\<close> is taken before the
  row is processed, and the checkpoint (lines 246 to 251) is reached only by a pass that did
  not end with \<^verbatim>\<open>continue\<close>.
\<close>

definition loop_body :: "collaborators \<Rightarrow> company \<Rightarrow> run \<Rightarrow> run attempt" where
  "loop_body env company st =
     (let processed_count = length (results st) + 1
      in case process_company env company of
           Raises e \<Rightarrow> Raises e
         | Returns it \<Rightarrow>
             (let results' = results st @ appended it
              in Returns
                   \<lparr>results = results',
                    checkpoints =
                      (if \<not> continued it \<and> processed_count mod 10 = 0
                       then checkpoints st @ [(processed_count, results')]
                       else checkpoints st),
                    trace = trace st @ calls it\<rparr>))"

fun loop :: "collaborators \<Rightarrow> company list \<Rightarrow> run \<Rightarrow> run attempt" where
  "loop env [] st = Returns st"
| "loop env (company # rest) st =
     (case loop_body env company st of
        Raises e \<Rightarrow> Raises e
      | Returns st' \<Rightarrow> loop env rest st')"

text \<open>
  \<^verbatim>\<open>process_companies_fast\<close> on a table that was read (\<open>df\<close>, its rows in order), up to the end
  of the loop: the batch is \<^verbatim>\<open>df.iloc[start_from:end_index]\<close> with
  \<^verbatim>\<open>end_index = min(start_from + batch_size, len(df))\<close>. \<open>batch_size\<close> and \<open>start_from\<close>
  are natural numbers. Reading the table, writing the two result files and printing are
  not modelled.
\<close>

definition process_companies_fast ::
  "collaborators \<Rightarrow> company list \<Rightarrow> nat \<Rightarrow> nat \<Rightarrow> run attempt" where
  "process_companies_fast env df batch_size start_from =
     (let end_index = min (start_from + batch_size) (length df);
          batch_companies = take (end_index - start_from) (drop start_from df)
      in loop env batch_companies \<lparr>results = [], checkpoints = [], trace = []\<rparr>)"

text \<open>
  The summary (lines 278 to 307). \<^verbatim>\<open>r.get('Lifecycle Stage') != 'other'\<close> compares with a
  string, so it holds of every value that is not that string. \<^verbatim>\<open>str(r)\<close>, the printed form of
  a dictionary, is a parameter \<open>py_str\<close> of the counts that search it.
\<close>

fun starts_with :: "string \<Rightarrow> string \<Rightarrow> bool" where
  "starts_with [] s = True"
| "starts_with (p # ps) [] = False"
| "starts_with (p # ps) (c # cs) = (p = c \<and> starts_with ps cs)"

fun contains :: "string \<Rightarrow> string \<Rightarrow> bool" where
  "contains p [] = (p = [])"
| "contains p (c # cs) = (starts_with p (c # cs) \<or> contains p cs)"

definition lifecycle_is_other :: "result \<Rightarrow> bool" where
  "lifecycle_is_other r = (dict_get r Lifecycle_Stage PNone = PStr ''other'')"

definition total_processed :: "result list \<Rightarrow> nat" where
  "total_processed rs = length rs"

definition approved :: "result list \<Rightarrow> nat" where
  "approved rs = length (filter (\<lambda>r. \<not> lifecycle_is_other r) rs)"

definition dq_no_website :: "result list \<Rightarrow> nat" where
  "dq_no_website rs = length (filter (\<lambda>r. \<not> truthy (dict_get r Website_URL PNone)) rs)"

definition dq_broken :: "(result \<Rightarrow> string) \<Rightarrow> result list \<Rightarrow> nat" where
  "dq_broken py_str rs =
     length (filter (\<lambda>r. lifecycle_is_other r \<and> contains ''Scraping failed'' (py_str r)) rs)"

definition dq_irrelevant :: "(result \<Rightarrow> string) \<Rightarrow> result list \<Rightarrow> nat" where
  "dq_irrelevant py_str rs =
     length (filter (\<lambda>r. lifecycle_is_other r \<and> contains ''Irrelevant'' (py_str r)) rs)"

definition dq_small_team :: "(result \<Rightarrow> string) \<Rightarrow> result list \<Rightarrow> nat" where
  "dq_small_team py_str rs =
     length (filter (\<lambda>r. lifecycle_is_other r \<and> contains ''small'' (py_str r)) rs)"

definition total_ai_calls :: "(result \<Rightarrow> string) \<Rightarrow> result list \<Rightarrow> nat" where
  "total_ai_calls py_str rs =
     sum_list (map (\<lambda>r. if \<not> lifecycle_is_other r \<or> contains ''Irrelevant'' (py_str r)
                         then 1 else 0) rs)"

definition team_ai_calls :: "result list \<Rightarrow> nat" where
  "team_ai_calls rs = approved rs"

text \<open>Which collaborator a call went to.\<close>

fun is_classify :: "call \<Rightarrow> bool" where
  "is_classify (Classify r) = True"
| "is_classify c = False"

fun is_analyze :: "call \<Rightarrow> bool" where
  "is_analyze (Analyze r) = True"
| "is_analyze c = False"

fun is_team_llm :: "call \<Rightarrow> bool" where
  "is_team_llm (Team_LLM s) = True"
| "is_team_llm c = False"

text \<open>The dictionary a row starts from: lines 41, 42 and 48 to 66 together.\<close>

definition initial_result :: "company \<Rightarrow> result" where
  "initial_result company =
     base_result company (series_get company Company_name (PStr ''Unknown''))
       (series_get company Website_URL (PStr []))"

section \<open>Example inputs\<close>

text \<open>
  Collaborators that answer the same whatever they are asked: every fetch gives \<open>fetched\<close>,
  the team link search gives \<open>team_link\<close>, the other two searches find nothing, the
  classifier gives \<open>classified\<close> and the team language model gives \<open>counted\<close>.
\<close>

definition fixed_collaborators ::
  "page option \<Rightarrow> string option attempt \<Rightarrow> relevance attempt \<Rightarrow> team_analysis attempt
     \<Rightarrow> collaborators" where
  "fixed_collaborators fetched team_link classified counted =
     \<lparr>scrape_single_page = (\<lambda>u. fetched),
      find_about_page = (\<lambda>p u. Returns None),
      find_team_page = (\<lambda>p u. team_link),
      find_contact_page = (\<lambda>p u. Returns None),
      classify_relevance_and_contact = (\<lambda>n h a c. classified),
      team_llm = (\<lambda>c. counted)\<rparr>"

definition studio_page :: page where
  "studio_page = \<lparr>url = ''https://studio.example'', page_text = ''Meet our architects''\<rparr>"

definition says_relevant :: "bool \<Rightarrow> real \<Rightarrow> relevance" where
  "says_relevant b c =
     \<lparr>is_relevant = b, confidence = Finite c, reasoning = ''architecture practice'',
      phone_number = Some ''020 7946 0000'', street_address = None\<rparr>"

definition counts :: "int \<Rightarrow> team_analysis" where
  "counts n = \<lparr>employee_count = n, count_confidence = Finite (9 / 10), names_found = []\<rparr>"

text \<open>A row with a website and no owner: the table has no \<^verbatim>\<open>Company owner\<close> column.\<close>

definition studio :: company where
  "studio =
     [Record_ID \<mapsto> PInt 7, Company_name \<mapsto> PStr ''Studio'',
      Website_URL \<mapsto> PStr ''studio.example'', Type \<mapsto> PStr ''prospect'',
      Sector \<mapsto> PStr ''aec'', Lifecycle_Stage \<mapsto> PStr ''lead'']"

text \<open>A row of a table that has no \<^verbatim>\<open>Website URL\<close> column.\<close>

definition no_site :: company where
  "no_site = [Record_ID \<mapsto> PInt 8, Company_name \<mapsto> PStr ''Nowhere'', Lifecycle_Stage \<mapsto> PStr ''lead'']"

section \<open>Properties of the stages\<close>

text \<open>The handler of \<^verbatim>\<open>scrape_company_pages\<close> covers its whole body: it always returns.\<close>

lemma scrape_company_pages_returns: "\<exists>sr. scrape_company_pages env u = Returns sr"
  by (simp add: scrape_company_pages_def Let_def split: option.splits attempt.splits)

text \<open>\<^verbatim>\<open>analyze_team_members\<close> calls nothing but its language model.\<close>

lemma analyze_team_members_llm_calls:
  "list_all is_team_llm (snd (analyze_team_members env a b))"
  by (simp add: analyze_team_members_def Let_def)

text \<open>The three ways through lines 135 to 244.\<close>

lemma team_stage_cases [case_names no_team_data analyzer_error team_rules]:
  assumes "it = team_stage env result sr rel so_far"
  obtains
    "team_page sr = None" and "about_page sr = None"
    and "it = \<lparr>appended = [update_contact_info result rel], reason = NoTeamData,
               calls = so_far, continued = True\<rparr>"
  | e llm where "team_page sr \<noteq> None \<or> about_page sr \<noteq> None" and "list_all is_team_llm llm"
    and "it = \<lparr>appended = [update_contact_info result rel], reason = AnalyzerError,
               calls = so_far @ [Analyze (Raises e)] @ llm, continued = False\<rparr>"
  | t llm where "team_page sr \<noteq> None \<or> about_page sr \<noteq> None" and "list_all is_team_llm llm"
    and "it = \<lparr>appended = [fst (team_size_rules result rel (employee_count t))],
               reason = snd (team_size_rules result rel (employee_count t)),
               calls = so_far @ [Analyze (Returns t)] @ llm, continued = False\<rparr>"
proof (cases "team_page sr = None \<and> about_page sr = None")
  case True
  with assms that(1) show ?thesis by (simp add: team_stage_def)
next
  case False
  obtain reply llm where an: "analyze_team_members env (Some (text_of (team_page sr)))
      (Some (text_of (about_page sr))) = (reply, llm)"
    by (cases "analyze_team_members env (Some (text_of (team_page sr))) (Some (text_of (about_page sr)))")
  have llm: "list_all is_team_llm llm"
    using analyze_team_members_llm_calls [of env "Some (text_of (team_page sr))" "Some (text_of (about_page sr))"] an
    by simp
  show ?thesis
  proof (cases reply)
    case (Raises e)
    with assms False an llm that(2) [of llm e] show ?thesis
      by (simp add: team_stage_def)
  next
    case (Returns t)
    with assms False an llm that(3) [of llm t] show ?thesis
      by (simp add: team_stage_def split: prod.splits)
  qed
qed

text \<open>
  The seven ways through the loop body for one row, each with the dictionary appended, the
  branch, the calls made and whether the pass ended with \<^verbatim>\<open>continue\<close>. Every pass that returns
  is one of them.
\<close>

lemma process_company_cases
  [consumes 1, case_names no_website scrape_failed classifier_error irrelevant
     no_team_data analyzer_error team_rules]:
  assumes "process_company env company = Returns it"
  obtains
    "\<not> truthy (series_get company Website_URL (PStr []))"
    and "it = \<lparr>appended = [initial_result company ++ dq_update], reason = NoWebsite,
               calls = [], continued = True\<rparr>"
  | sr where "truthy (series_get company Website_URL (PStr []))"
    and "truthy_str (error sr)"
    and "it = \<lparr>appended = [initial_result company ++ dq_update], reason = ScrapeFailed,
               calls = [Scrape (series_get company Website_URL (PStr [])) sr],
               continued = True\<rparr>"
  | sr e where "truthy (series_get company Website_URL (PStr []))"
    and "\<not> truthy_str (error sr)"
    and "it = \<lparr>appended = [initial_result company], reason = ClassifierError,
               calls = [Scrape (series_get company Website_URL (PStr [])) sr,
                        Classify (Raises e)],
               continued = True\<rparr>"
  | sr rel where "truthy (series_get company Website_URL (PStr []))"
    and "\<not> truthy_str (error sr)"
    and "\<not> is_relevant rel" and "float_gt (confidence rel) (Finite confidence_threshold)"
    and "it = \<lparr>appended = [initial_result company ++ dq_update], reason = Irrelevant,
               calls = [Scrape (series_get company Website_URL (PStr [])) sr,
                        Classify (Returns rel)],
               continued = True\<rparr>"
  | sr rel where "truthy (series_get company Website_URL (PStr []))"
    and "\<not> truthy_str (error sr)"
    and "is_relevant rel \<or> \<not> float_gt (confidence rel) (Finite confidence_threshold)"
    and "team_page sr = None" and "about_page sr = None"
    and "it = \<lparr>appended = [update_contact_info (initial_result company) rel],
               reason = NoTeamData,
               calls = [Scrape (series_get company Website_URL (PStr [])) sr,
                        Classify (Returns rel)],
               continued = True\<rparr>"
  | sr rel e llm where "truthy (series_get company Website_URL (PStr []))"
    and "\<not> truthy_str (error sr)"
    and "is_relevant rel \<or> \<not> float_gt (confidence rel) (Finite confidence_threshold)"
    and "team_page sr \<noteq> None \<or> about_page sr \<noteq> None"
    and "list_all is_team_llm llm"
    and "it = \<lparr>appended = [update_contact_info (initial_result company) rel],
               reason = AnalyzerError,
               calls = [Scrape (series_get company Website_URL (PStr [])) sr,
                        Classify (Returns rel), Analyze (Raises e)] @ llm,
               continued = False\<rparr>"
  | sr rel t llm where "truthy (series_get company Website_URL (PStr []))"
    and "\<not> truthy_str (error sr)"
    and "is_relevant rel \<or> \<not> float_gt (confidence rel) (Finite confidence_threshold)"
    and "team_page sr \<noteq> None \<or> about_page sr \<noteq> None"
    and "list_all is_team_llm llm"
    and "it = \<lparr>appended = [fst (team_size_rules (initial_result company) rel (employee_count t))],
               reason = snd (team_size_rules (initial_result company) rel (employee_count t)),
               calls = [Scrape (series_get company Website_URL (PStr [])) sr,
                        Classify (Returns rel), Analyze (Returns t)] @ llm,
               continued = False\<rparr>"
proof (cases "truthy (series_get company Website_URL (PStr []))")
  case False
  with assms that(1) show ?thesis
    by (simp add: process_company_def initial_result_def Let_def)
next
  case site: True
  obtain sr where sr: "scrape_company_pages env (series_get company Website_URL (PStr [])) = Returns sr"
    using scrape_company_pages_returns by blast
  show ?thesis
  proof (cases "truthy_str (error sr)")
    case True
    with assms site sr that(2) [of sr] show ?thesis
      by (simp add: process_company_def initial_result_def Let_def)
  next
    case ok: False
    let ?name = "series_get company Company_name (PStr ''Unknown'')"
    let ?so_far = "[Scrape (series_get company Website_URL (PStr [])) sr]"
    have it: "it = relevance_stage env ?name (initial_result company) sr ?so_far"
      using assms site sr ok by (simp add: process_company_def initial_result_def Let_def)
    show ?thesis
    proof (cases "classify_relevance_and_contact env ?name (text_of (homepage sr))
                    (text_of (about_page sr)) (text_of (contact_page sr))")
      case (Raises e)
      with it site ok that(3) [of sr e] show ?thesis
        by (simp add: relevance_stage_def)
    next
      case (Returns rel)
      show ?thesis
      proof (cases "\<not> is_relevant rel \<and> float_gt (confidence rel) (Finite confidence_threshold)")
        case True
        with it Returns site ok that(4) [of sr rel] show ?thesis
          by (simp add: relevance_stage_def)
      next
        case False
        then have keep: "is_relevant rel \<or> \<not> float_gt (confidence rel) (Finite confidence_threshold)"
          by blast
        have "it = team_stage env (initial_result company) sr rel (?so_far @ [Classify (Returns rel)])"
          using it Returns False by (simp add: relevance_stage_def)
        then show ?thesis
        proof (cases rule: team_stage_cases)
          case no_team_data
          with site ok keep that(5) [of sr rel] show ?thesis by simp
        next
          case (analyzer_error e llm)
          with site ok keep that(6) [of sr rel llm e] show ?thesis by simp
        next
          case (team_rules t llm)
          with site ok keep that(7) [of sr rel llm t] show ?thesis by simp
        qed
      qed
    qed
  qed
qed

lemma team_llm_not_analyze: "list_all is_team_llm llm \<Longrightarrow> Analyze x \<notin> set llm"
  by (auto simp: list_all_iff)

lemma team_llm_not_classify: "list_all is_team_llm llm \<Longrightarrow> Classify x \<notin> set llm"
  by (auto simp: list_all_iff)

lemma update_contact_info_frame:
  "k \<noteq> Phone_Number \<Longrightarrow> k \<noteq> Street_Address \<Longrightarrow> update_contact_info r rel k = r k"
  by (simp add: update_contact_info_def Let_def)

lemma initial_result_passthrough:
  "initial_result company Lifecycle_Stage = Some (series_get company Lifecycle_Stage PNone)"
  "initial_result company Sector = Some (series_get company Sector PNone)"
  "initial_result company Type = Some (series_get company Type PNone)"
  "initial_result company Company_owner = Some (series_get company Company_owner PNone)"
  by (simp_all add: initial_result_def base_result_def)


lemma team_size_rules_small:
  assumes "1 \<le> n" and "n < 5"
  shows "snd (team_size_rules r rel n) = TeamTooSmall"
    and "fst (team_size_rules r rel n) Lifecycle_Stage = Some (PStr ''other'')"
    and "fst (team_size_rules r rel n) Company_owner = Some (PStr ''no owner'')"
    and "fst (team_size_rules r rel n) Sector = Some (PStr ''n/a'')"
    and "fst (team_size_rules r rel n) Type = Some (PStr ''other'')"
    and "fst (team_size_rules r rel n) Number_of_Employees = Some (PInt n)"
  using assms by (simp_all add: team_size_rules_def map_add_def)

lemma team_size_rules_zero:
  shows "snd (team_size_rules r rel 0) = TeamParseFailed"
    and "fst (team_size_rules r rel 0) = update_contact_info r rel"
  by (simp_all add: team_size_rules_def Let_def)

lemma team_size_rules_approve:
  assumes "n < 0 \<or> 5 \<le> n"
  shows "snd (team_size_rules r rel n) = ApprovedOk"
    and "fst (team_size_rules r rel n) Company_owner = Some (PStr (owner_tier n))"
    and "fst (team_size_rules r rel n) Number_of_Employees = Some (PInt n)"
    and "k \<noteq> Company_owner \<Longrightarrow> k \<noteq> Number_of_Employees \<Longrightarrow> k \<noteq> Phone_Number
           \<Longrightarrow> k \<noteq> Street_Address \<Longrightarrow> fst (team_size_rules r rel n) k = r k"
  using assms
  by (auto simp add: team_size_rules_def Let_def update_contact_info_def map_add_def)

lemma team_size_rules_reason:
  "snd (team_size_rules r rel n) \<in> {TeamTooSmall, TeamParseFailed, ApprovedOk}"
  by (simp add: team_size_rules_def Let_def)

text \<open>
  The constant is a binary64 number (an integer multiple of \<open>2 ^ -53\<close> between a half and
  one) and lies within half a spacing of eight tenths.
\<close>

lemma confidence_threshold_binary64:
  "confidence_threshold * 2 ^ 53 = 7205759403792794"
  "\<bar>confidence_threshold - 8 / 10\<bar> < 1 / 2 ^ 54"
  by (simp_all add: confidence_threshold_def)





text \<open>Which passes end with \<^verbatim>\<open>continue\<close>, and when a pass writes a checkpoint.\<close>

lemma continued_iff_early_exit:
  assumes "process_company env company = Returns it"
  shows "continued it \<longleftrightarrow>
           reason it \<in> {NoWebsite, ScrapeFailed, Irrelevant, ClassifierError, NoTeamData}"
  using assms
proof (cases rule: process_company_cases)
  case (team_rules sr rel t llm)
  then show ?thesis
    using team_size_rules_reason [of "initial_result company" rel "employee_count t"] by auto
qed simp_all

lemma loop_body_checkpoint:
  assumes "process_company env company = Returns it"
    and "loop_body env company st = Returns st'"
  shows "checkpoints st' =
           (if reason it \<in> {TeamTooSmall, TeamParseFailed, ApprovedOk, AnalyzerError}
               \<and> Suc (length (results st)) mod 10 = 0
            then checkpoints st @ [(Suc (length (results st)), results st')]
            else checkpoints st)"
proof -
  have "\<not> continued it \<longleftrightarrow> reason it \<in> {TeamTooSmall, TeamParseFailed, ApprovedOk, AnalyzerError}"
    using continued_iff_early_exit [OF assms(1)] by (cases "reason it") simp_all
  with assms show ?thesis
    by (auto simp: loop_body_def Let_def)
qed

text \<open>The summary cannot count more first calls than there are records.\<close>

lemma total_ai_calls_le_total_processed: "total_ai_calls py_str rs \<le> total_processed rs"
  by (induction rs) (simp_all add: total_ai_calls_def total_processed_def)

text \<open>
  For a batch of one row that is disqualified for a team of three, two calls were made,
  and the sum the summary prints as "total AI calls" is at most one, whatever \<^verbatim>\<open>str(r)\<close> is.
\<close>

lemma printed_ai_calls_too_few:
  "(case process_companies_fast
           (fixed_collaborators (Some studio_page) (Returns (Some ''/team''))
              (Returns (says_relevant True (9 / 10))) (Returns (counts 3)))
           [studio] 100 0 of
      Raises e \<Rightarrow> False
    | Returns st \<Rightarrow>
        length (filter (\<lambda>c. is_classify c \<or> is_analyze c) (trace st)) = 2
        \<and> total_ai_calls py_str (results st) + team_ai_calls (results st) \<le> 1)"
proof -
  have "case process_companies_fast
           (fixed_collaborators (Some studio_page) (Returns (Some ''/team''))
              (Returns (says_relevant True (9 / 10))) (Returns (counts 3)))
           [studio] 100 0 of
      Raises e \<Rightarrow> False
    | Returns st \<Rightarrow>
        total_processed (results st) = 1
        \<and> length (filter (\<lambda>c. is_classify c \<or> is_analyze c) (trace st)) = 2
        \<and> team_ai_calls (results st) = 0"
    by code_simp
  then obtain st where run: "process_companies_fast
           (fixed_collaborators (Some studio_page) (Returns (Some ''/team''))
              (Returns (says_relevant True (9 / 10))) (Returns (counts 3)))
           [studio] 100 0 = Returns st"
    and seen: "total_processed (results st) = 1"
      "length (filter (\<lambda>c. is_classify c \<or> is_analyze c) (trace st)) = 2"
      "team_ai_calls (results st) = 0"
    by (auto split: attempt.splits)
  have "total_ai_calls py_str (results st) \<le> total_processed (results st)"
    by (rule total_ai_calls_le_total_processed)
  with run seen show ?thesis
    by simp
qed

text \<open>
  On the three manual-review exits after the first call the owner is the row's own value,
  whatever it is.
\<close>

lemma manual_review_owner_is_passthrough:
  assumes "process_company env company = Returns it"
    and "reason it \<in> {NoTeamData, TeamParseFailed, AnalyzerError}"
  shows "\<exists>r. appended it = [r] \<and> r Company_owner = Some (series_get company Company_owner PNone)"
  using assms(1)
proof (cases rule: process_company_cases)
  case (team_rules sr rel t llm)
  let ?n = "employee_count t"
  consider "1 \<le> ?n \<and> ?n < 5" | "?n = 0" | "?n < 0 \<or> 5 \<le> ?n"
    by linarith
  then show ?thesis
  proof cases
    case 1
    with team_rules assms(2) show ?thesis
      using team_size_rules_small(1) [where n = ?n and r = "initial_result company" and rel = rel]
      by simp
  next
    case 2
    with team_rules show ?thesis
      by (simp add: team_size_rules_zero update_contact_info_frame initial_result_passthrough)
  next
    case 3
    with team_rules assms(2) show ?thesis
      using team_size_rules_approve(1) [where n = ?n and r = "initial_result company" and rel = rel]
      by simp
  qed
qed (use assms(2) in \<open>simp_all add: update_contact_info_frame initial_result_passthrough\<close>)

text \<open>
  \<^verbatim>\<open>strip\<close> empties a string exactly when all of it is whitespace. The headers put before
  the texts are not, so a text that is there always reaches the language model.
\<close>

lemma strip_eq_Nil_iff: "strip s = [] \<longleftrightarrow> (\<forall>c \<in> set s. isspace c)"
proof -
  have "dropWhile isspace (rev (dropWhile isspace s)) = [] \<longleftrightarrow> dropWhile isspace s = []"
  proof
    assume a: "dropWhile isspace (rev (dropWhile isspace s)) = []"
    show "dropWhile isspace s = []"
    proof (rule ccontr)
      assume "dropWhile isspace s \<noteq> []"
      then have "\<not> isspace (hd (dropWhile isspace s))" "hd (dropWhile isspace s) \<in> set (dropWhile isspace s)"
        by (simp_all add: hd_dropWhile)
      with a show False
        by auto
    qed
  next
    assume b: "dropWhile isspace s = []"
    show "dropWhile isspace (rev (dropWhile isspace s)) = []"
      unfolding b by simp
  qed
  then show ?thesis
    by (simp add: strip_def)
qed

lemma isspace_equals_sign: "\<not> isspace CHR ''=''"
  by (simp add: isspace_def)

lemma analyze_team_members_invokes_llm:
  assumes "truthy_str team_text \<or> truthy_str about_text"
  shows "\<exists>content. analyze_team_members env team_text about_text
           = (team_llm env content, [Team_LLM content])"
  using assms isspace_equals_sign
  by (auto simp: analyze_team_members_def Let_def strip_eq_Nil_iff)

section \<open>Claims\<close>

text \<open>
  C1. On a manual-review exit taken after a successful relevance call (no team data, analyzer
  failure, or a count of zero), the claim wants Company owner to be the passthrough owner
  when there is one and "James" when there is none. The source computes
  \<^verbatim>\<open>owner = result.get('Company owner', 'James')\<close> and only prints it: the key is always in the
  dictionary, so the default is never taken, and \<^verbatim>\<open>owner\<close> is never stored. Evaluated on a row
  without owner: where the table has no owner column the record keeps \<^verbatim>\<open>None\<close> (no team data),
  and where the owner cell is empty it keeps \<^verbatim>\<open>nan\<close> (count of zero, analyzer failure); none
  of the three records has the owner "James".
\<close>

theorem manual_review_owner_not_defaulted:
  "studio Company_owner = None
   \<and> (case process_company
              (fixed_collaborators (Some studio_page) (Returns None)
                 (Returns (says_relevant True (9 / 10))) (Returns (counts 20))) studio of
         Raises e \<Rightarrow> False
       | Returns it \<Rightarrow>
           reason it = NoTeamData \<and> map (\<lambda>r. r Company_owner) (appended it) = [Some PNone])
   \<and> (case process_company
              (fixed_collaborators (Some studio_page) (Returns (Some ''/team''))
                 (Returns (says_relevant True (9 / 10))) (Returns (counts 0)))
              (studio(Company_owner \<mapsto> PNaN)) of
         Raises e \<Rightarrow> False
       | Returns it \<Rightarrow>
           reason it = TeamParseFailed \<and> map (\<lambda>r. r Company_owner) (appended it) = [Some PNaN])
   \<and> (case process_company
              (fixed_collaborators (Some studio_page) (Returns (Some ''/team''))
                 (Returns (says_relevant True (9 / 10))) (Raises ''timed out''))
              (studio(Company_owner \<mapsto> PNaN)) of
         Raises e \<Rightarrow> False
       | Returns it \<Rightarrow>
           reason it = AnalyzerError \<and> map (\<lambda>r. r Company_owner) (appended it) = [Some PNaN])"
  by code_simp

text \<open>
  C2. The claim wants a checkpoint holding all \<open>k\<close> records after the \<open>k\<close>-th row whenever \<open>k\<close> is
  a multiple of ten, whatever the outcome of that row. The checkpoint stands at the end of
  the loop body, and five of the nine exits leave the body with \<^verbatim>\<open>continue\<close> before it.
  Evaluated on ten rows none of whose sites can be fetched: ten records, and no checkpoint
  written.
\<close>

theorem tenth_row_without_checkpoint:
  "(case process_companies_fast
           (fixed_collaborators None (Returns None)
              (Returns (says_relevant True (9 / 10))) (Returns (counts 20)))
           (replicate 10 studio) 100 0 of
      Raises e \<Rightarrow> False
    | Returns st \<Rightarrow> length (results st) = 10 \<and> checkpoints st = [])"
  by code_simp

text \<open>
  C3. The claim wants the reported classifier-call and analyzer-call counts to be the
  numbers of rows that reached the first call and for which the team-data check passed.
  The source takes \<^verbatim>\<open>team_ai_calls = approved\<close>, the number of records whose Lifecycle Stage is
  not "other". Evaluated on a batch of one row with a team page and a count of three
  (disqualified, team too small): one classifier call and one analyzer call were made, and
  the summary counts no analyzer call.
\<close>

theorem team_calls_miscounted:
  "(case process_companies_fast
           (fixed_collaborators (Some studio_page) (Returns (Some ''/team''))
              (Returns (says_relevant True (9 / 10))) (Returns (counts 3)))
           [studio] 100 0 of
      Raises e \<Rightarrow> False
    | Returns st \<Rightarrow>
        total_processed (results st) = 1
        \<and> length (filter is_classify (trace st)) = 1
        \<and> length (filter is_analyze (trace st)) = 1
        \<and> approved (results st) = 0
        \<and> team_ai_calls (results st) = 0)"
  by code_simp

text \<open>
  C4. For every company whose team-analysis call succeeds with an employee count \<open>n \<ge> 0\<close>:
  \<open>n = 0\<close> gives manual review (team parse failed); \<open>1 \<le> n < 5\<close> gives a disqualification
  (team too small) with Number of Employees set to \<open>n\<close>; \<open>n \<ge> 5\<close> gives an approval with
  Number of Employees set to \<open>n\<close> and Company owner "James" for \<open>5 \<le> n < 16\<close>, "Ellinor" for
  \<open>16 \<le> n < 100\<close> and "Matt" for \<open>n \<ge> 100\<close>.
\<close>

theorem team_size_outcomes:
  assumes "process_company env company = Returns it"
    and "Analyze (Returns t) \<in> set (calls it)"
    and "0 \<le> employee_count t"
  shows "\<exists>r. appended it = [r] \<and>
           (employee_count t = 0 \<longrightarrow>
              reason it = TeamParseFailed \<and> disposition_of (reason it) = ManualReview) \<and>
           (1 \<le> employee_count t \<and> employee_count t < 5 \<longrightarrow>
              reason it = TeamTooSmall \<and> disposition_of (reason it) = Disqualified \<and>
              r Number_of_Employees = Some (PInt (employee_count t))) \<and>
           (5 \<le> employee_count t \<longrightarrow>
              reason it = ApprovedOk \<and> disposition_of (reason it) = Approved \<and>
              r Number_of_Employees = Some (PInt (employee_count t)) \<and>
              r Company_owner =
                Some (PStr (if employee_count t < 16 then ''James''
                            else if employee_count t < 100 then ''Ellinor'' else ''Matt'')))"
  using assms(1)
proof (cases rule: process_company_cases)
  case (team_rules sr rel t' llm)
  with assms(2) have "t' = t"
    by (auto dest: team_llm_not_analyze)
  with team_rules show ?thesis
    using team_size_rules_small [of "employee_count t"] team_size_rules_zero
      team_size_rules_approve [of "employee_count t"]
    by (auto simp: owner_tier_def)
qed (use assms(2) in \<open>auto dest: team_llm_not_analyze\<close>)

text \<open>
  An approval at twenty people: the team link is found, the classifier says relevant and
  the language model counts twenty.
\<close>

theorem team_size_outcomes_witness:
  "\<exists>it r. process_company
             (fixed_collaborators (Some studio_page) (Returns (Some ''/team''))
                (Returns (says_relevant True (9 / 10))) (Returns (counts 20))) studio = Returns it
         \<and> Analyze (Returns (counts 20)) \<in> set (calls it)
         \<and> 0 \<le> employee_count (counts 20)
         \<and> appended it = [r] \<and> reason it = ApprovedOk
         \<and> r Number_of_Employees = Some (PInt 20) \<and> r Company_owner = Some (PStr ''Ellinor'')"
proof -
  let ?env = "fixed_collaborators (Some studio_page) (Returns (Some ''/team''))
                (Returns (says_relevant True (9 / 10))) (Returns (counts 20))"
  have "case process_company ?env studio of
          Raises e \<Rightarrow> False
        | Returns it \<Rightarrow> Analyze (Returns (counts 20)) \<in> set (calls it)"
    by code_simp
  then obtain it where run: "process_company ?env studio = Returns it"
    and call: "Analyze (Returns (counts 20)) \<in> set (calls it)"
    by (auto split: attempt.splits)
  have n: "employee_count (counts 20) = 20"
    by (simp add: counts_def)
  from team_size_outcomes [OF run call] n show ?thesis
    using run call by auto
qed

text \<open>
  C5. For every company whose relevance call succeeds with \<^verbatim>\<open>is_relevant\<close> false, the company is
  disqualified as irrelevant exactly when the confidence is greater than the threshold
  0.8; a confidence equal to the threshold does not disqualify, and a relevant company is
  never disqualified as irrelevant, whatever the confidence.
\<close>

theorem irrelevant_iff_confident:
  assumes "process_company env company = Returns it"
    and "Classify (Returns rel) \<in> set (calls it)"
  shows "(\<not> is_relevant rel \<longrightarrow>
            (reason it = Irrelevant \<longleftrightarrow> float_gt (confidence rel) (Finite confidence_threshold)))
       \<and> (confidence rel = Finite confidence_threshold \<longrightarrow> reason it \<noteq> Irrelevant)
       \<and> (is_relevant rel \<longrightarrow> reason it \<noteq> Irrelevant)"
  using assms(1)
proof (cases rule: process_company_cases)
  case (irrelevant sr rel')
  with assms(2) show ?thesis by auto
next
  case (no_team_data sr rel')
  with assms(2) show ?thesis by auto
next
  case (analyzer_error sr rel' e llm)
  with assms(2) show ?thesis by (auto dest: team_llm_not_classify)
next
  case (team_rules sr rel' t llm)
  with assms(2) have "rel' = rel" by (auto dest: team_llm_not_classify)
  with team_rules show ?thesis
    by (auto simp: team_size_rules_def Let_def)
qed (use assms(2) in auto)

text \<open>
  Not relevant with confidence 0.95: disqualified. Not relevant with a confidence of
  exactly the threshold: not disqualified as irrelevant.
\<close>

theorem irrelevant_iff_confident_witness:
  "(\<exists>it. process_company
            (fixed_collaborators (Some studio_page) (Returns None)
               (Returns (says_relevant False (95 / 100))) (Returns (counts 20))) studio = Returns it
        \<and> Classify (Returns (says_relevant False (95 / 100))) \<in> set (calls it)
        \<and> \<not> is_relevant (says_relevant False (95 / 100))
        \<and> float_gt (confidence (says_relevant False (95 / 100))) (Finite confidence_threshold)
        \<and> reason it = Irrelevant)
   \<and> (\<exists>it. process_company
            (fixed_collaborators (Some studio_page) (Returns None)
               (Returns (says_relevant False confidence_threshold)) (Returns (counts 20)))
            studio = Returns it
        \<and> Classify (Returns (says_relevant False confidence_threshold)) \<in> set (calls it)
        \<and> confidence (says_relevant False confidence_threshold) = Finite confidence_threshold
        \<and> reason it \<noteq> Irrelevant)"
proof
  let ?rel = "says_relevant False (95 / 100)"
  let ?env = "fixed_collaborators (Some studio_page) (Returns None) (Returns ?rel) (Returns (counts 20))"
  have "case process_company ?env studio of
          Raises e \<Rightarrow> False
        | Returns it \<Rightarrow> Classify (Returns ?rel) \<in> set (calls it)"
    by code_simp
  then obtain it where run: "process_company ?env studio = Returns it"
    and call: "Classify (Returns ?rel) \<in> set (calls it)"
    by (auto split: attempt.splits)
  have rel: "\<not> is_relevant ?rel" "float_gt (confidence ?rel) (Finite confidence_threshold)"
    by (simp_all add: says_relevant_def confidence_threshold_def)
  from irrelevant_iff_confident [OF run call] rel have "reason it = Irrelevant"
    by blast
  with run call rel
  show "\<exists>it. process_company ?env studio = Returns it
        \<and> Classify (Returns ?rel) \<in> set (calls it)
        \<and> \<not> is_relevant ?rel
        \<and> float_gt (confidence ?rel) (Finite confidence_threshold)
        \<and> reason it = Irrelevant"
    by blast
next
  let ?rel = "says_relevant False confidence_threshold"
  let ?env = "fixed_collaborators (Some studio_page) (Returns None) (Returns ?rel) (Returns (counts 20))"
  have "case process_company ?env studio of
          Raises e \<Rightarrow> False
        | Returns it \<Rightarrow> Classify (Returns ?rel) \<in> set (calls it)"
    by code_simp
  then obtain it where run: "process_company ?env studio = Returns it"
    and call: "Classify (Returns ?rel) \<in> set (calls it)"
    by (auto split: attempt.splits)
  have rel: "confidence ?rel = Finite confidence_threshold"
    by (simp add: says_relevant_def)
  from irrelevant_iff_confident [OF run call] rel have "reason it \<noteq> Irrelevant"
    by blast
  with run call rel
  show "\<exists>it. process_company ?env studio = Returns it
        \<and> Classify (Returns ?rel) \<in> set (calls it)
        \<and> confidence ?rel = Finite confidence_threshold
        \<and> reason it \<noteq> Irrelevant"
    by blast
qed





text \<open>
  C8. For every input company, an exit calls no collaborator of a later step: the exit
  for a missing website makes no call at all, the exit for a failed scrape calls neither
  the classifier nor the team analyzer, and the exits for an irrelevant company, for a
  classifier failure and for missing team data never call the team analyzer or its
  language model.
\<close>

theorem exits_call_no_later_collaborator:
  assumes "process_company env company = Returns it"
  shows "(reason it = NoWebsite \<longrightarrow> calls it = [])
       \<and> (reason it = ScrapeFailed \<longrightarrow>
            list_all (\<lambda>c. \<not> is_classify c \<and> \<not> is_analyze c \<and> \<not> is_team_llm c) (calls it))
       \<and> (reason it = Irrelevant \<or> reason it = ClassifierError \<or> reason it = NoTeamData \<longrightarrow>
            list_all (\<lambda>c. \<not> is_analyze c \<and> \<not> is_team_llm c) (calls it))"
  using assms
proof (cases rule: process_company_cases)
  case (team_rules sr rel t llm)
  then show ?thesis
    using team_size_rules_reason [of "initial_result company" rel "employee_count t"] by auto
qed simp_all

text \<open>A row without website, and a row the classifier finds irrelevant.\<close>

theorem exits_call_no_later_collaborator_witness:
  "(\<exists>it. process_company
            (fixed_collaborators None (Returns None) (Raises ''unused'') (Raises ''unused''))
            no_site = Returns it
        \<and> reason it = NoWebsite \<and> calls it = [])
   \<and> (\<exists>it. process_company
            (fixed_collaborators (Some studio_page) (Returns (Some ''/team''))
               (Returns (says_relevant False (95 / 100))) (Returns (counts 20)))
            studio = Returns it
        \<and> reason it = Irrelevant
        \<and> list_all (\<lambda>c. \<not> is_analyze c \<and> \<not> is_team_llm c) (calls it))"
proof
  let ?env = "fixed_collaborators None (Returns None) (Raises ''unused'') (Raises ''unused'')"
  have "case process_company ?env no_site of
          Raises e \<Rightarrow> False
        | Returns it \<Rightarrow> reason it = NoWebsite"
    by code_simp
  then obtain it where run: "process_company ?env no_site = Returns it"
    and why: "reason it = NoWebsite"
    by (auto split: attempt.splits)
  from exits_call_no_later_collaborator [OF run] why run
  show "\<exists>it. process_company ?env no_site = Returns it \<and> reason it = NoWebsite \<and> calls it = []"
    by auto
next
  let ?env = "fixed_collaborators (Some studio_page) (Returns (Some ''/team''))
               (Returns (says_relevant False (95 / 100))) (Returns (counts 20))"
  have "case process_company ?env studio of
          Raises e \<Rightarrow> False
        | Returns it \<Rightarrow> reason it = Irrelevant"
    by code_simp
  then obtain it where run: "process_company ?env studio = Returns it"
    and why: "reason it = Irrelevant"
    by (auto split: attempt.splits)
  from exits_call_no_later_collaborator [OF run] why run
  show "\<exists>it. process_company ?env studio = Returns it \<and> reason it = Irrelevant
        \<and> list_all (\<lambda>c. \<not> is_analyze c \<and> \<not> is_team_llm c) (calls it)"
    by auto
qed

text \<open>
  C9, as amended. For every call of the team analyzer in which both the team text and the
  about text are empty (\<^verbatim>\<open>None\<close> or the empty string), it returns an employee count of 0, a
  confidence of 0.0 and no names, and makes no language-model call.
\<close>

theorem empty_texts_skip_llm:
  assumes "\<not> truthy_str team_text" and "\<not> truthy_str about_text"
  shows "analyze_team_members env team_text about_text =
           (Returns \<lparr>employee_count = 0, count_confidence = Finite 0, names_found = []\<rparr>, [])"
  using assms by (simp add: analyze_team_members_def strip_def)

text \<open>An empty team text and an absent about text.\<close>

theorem empty_texts_skip_llm_witness:
  "\<not> truthy_str (Some []) \<and> \<not> truthy_str None \<and>
   analyze_team_members
     (fixed_collaborators None (Returns None) (Raises ''unused'') (Returns (counts 7)))
     (Some []) None =
     (Returns \<lparr>employee_count = 0, count_confidence = Finite 0, names_found = []\<rparr>, [])"
  using empty_texts_skip_llm [of "Some []" None]
  by simp

text \<open>
  C9 as stated also covers texts of whitespace only. A team text of one space is not empty,
  so the header is put before it and \<^verbatim>\<open>strip\<close> leaves the header: the language model is
  called, and its count (here 7) is returned.
\<close>

theorem whitespace_team_text_reaches_llm:
  "strip '' '' = [] \<and> strip [] = [] \<and>
   analyze_team_members
     (fixed_collaborators None (Returns None) (Raises ''unused'') (Returns (counts 7)))
     (Some '' '') (Some []) =
     (Returns (counts 7), [Team_LLM (''=== TEAM PAGE ==='' @ [CHR 0x0A, CHR 0x0A] @ '' '')])"
  by (simp add: analyze_team_members_def strip_def isspace_def fixed_collaborators_def)

text \<open>
  C10. For every company whose team-analysis call succeeds with an employee count below
  zero, the company is approved, Company owner is "James" and Number of Employees is the
  negative count.
\<close>

theorem negative_count_is_approved:
  assumes "process_company env company = Returns it"
    and "Analyze (Returns t) \<in> set (calls it)"
    and "employee_count t < 0"
  shows "\<exists>r. appended it = [r] \<and> reason it = ApprovedOk \<and>
           disposition_of (reason it) = Approved \<and>
           r Company_owner = Some (PStr ''James'') \<and>
           r Number_of_Employees = Some (PInt (employee_count t))"
  using assms(1)
proof (cases rule: process_company_cases)
  case (team_rules sr rel t' llm)
  with assms(2) have "t' = t"
    by (auto dest: team_llm_not_analyze)
  with team_rules assms(3) show ?thesis
    using team_size_rules_approve [where n = "employee_count t" and r = "initial_result company" and rel = rel]
    by (simp add: owner_tier_def)
qed (use assms(2) in \<open>auto dest: team_llm_not_analyze\<close>)

text \<open>The language model counting minus three.\<close>

theorem negative_count_is_approved_witness:
  "\<exists>it r. process_company
             (fixed_collaborators (Some studio_page) (Returns (Some ''/team''))
                (Returns (says_relevant True (9 / 10))) (Returns (counts (- 3)))) studio = Returns it
         \<and> Analyze (Returns (counts (- 3))) \<in> set (calls it)
         \<and> employee_count (counts (- 3)) < 0
         \<and> appended it = [r] \<and> reason it = ApprovedOk
         \<and> r Company_owner = Some (PStr ''James'') \<and> r Number_of_Employees = Some (PInt (- 3))"
proof -
  let ?env = "fixed_collaborators (Some studio_page) (Returns (Some ''/team''))
                (Returns (says_relevant True (9 / 10))) (Returns (counts (- 3)))"
  have "case process_company ?env studio of
          Raises e \<Rightarrow> False
        | Returns it \<Rightarrow> Analyze (Returns (counts (- 3))) \<in> set (calls it)"
    by code_simp
  then obtain it where run: "process_company ?env studio = Returns it"
    and call: "Analyze (Returns (counts (- 3))) \<in> set (calls it)"
    by (auto split: attempt.splits)
  have n: "employee_count (counts (- 3)) = - 3"
    by (simp add: counts_def)
  from negative_count_is_approved [OF run call] n show ?thesis
    using run call by auto
qed

end
